theory Spec2Isabelle
  imports Complex_Main
begin

section \<open>Python values\<close>

text \<open>
  The exceptions the modelled code can raise. \<open>Propagated\<close> stands for an exception
  raised inside \<open>requests.post\<close> that is not a \<open>RequestException\<close>; the retry loop
  does not catch it.
\<close>

datatype exn =
    AttributeError
  | TypeError
  | StopIteration
  | FileNotFoundError string
  | Propagated string

text \<open>
  A decoded JSON value. Python's \<open>int\<close> and \<open>float\<close> are both read as real numbers:
  the rounding of floating point is not modelled.
\<close>

datatype json =
    JNull
  | JBool bool
  | JNum real
  | JStr string
  | JArr "json list"
  | JObj "(string \<times> json) list"

text \<open>The numeric reading Python gives a value in a comparison with a number
  (\<open>True == 1\<close>, \<open>False == 0\<close>).\<close>

definition as_num :: "json \<Rightarrow> real option" where
  "as_num j = (case j of JNum r \<Rightarrow> Some r | JBool b \<Rightarrow> Some (if b then 1 else 0) | _ \<Rightarrow> None)"

text \<open>\<open>j == i\<close> for an integer literal \<open>i\<close>.\<close>

definition py_eq_int :: "json \<Rightarrow> int \<Rightarrow> bool" where
  "py_eq_int j i = (as_num j = Some (of_int i))"

text \<open>Truth value of an object in \<open>if x:\<close>.\<close>

definition truthy :: "json \<Rightarrow> bool" where
  "truthy j = (case j of JNull \<Rightarrow> False | JBool b \<Rightarrow> b | JNum r \<Rightarrow> r \<noteq> 0
     | JStr s \<Rightarrow> s \<noteq> [] | JArr xs \<Rightarrow> xs \<noteq> [] | JObj kvs \<Rightarrow> kvs \<noteq> [])"

text \<open>Lists and dicts are unhashable: using one as a dict key raises \<open>TypeError\<close>.\<close>

definition hashable :: "json \<Rightarrow> bool" where
  "hashable j = (case j of JArr _ \<Rightarrow> False | JObj _ \<Rightarrow> False | _ \<Rightarrow> True)"

subsection \<open>Dictionaries\<close>

text \<open>
  A \<open>dict\<close> is an association list with distinct keys, in insertion order.
  \<open>dict_get d k dflt\<close> is \<open>d.get(k, dflt)\<close>; \<open>dict_set d k v\<close> is \<open>d[k] = v\<close>, which
  keeps the position of a key already present and appends a new key at the end.
\<close>

definition dict_get :: "('k \<times> 'v) list \<Rightarrow> 'k \<Rightarrow> 'v \<Rightarrow> 'v" where
  "dict_get d k dflt = (case map_of d k of None \<Rightarrow> dflt | Some v \<Rightarrow> v)"

fun dict_set :: "('k \<times> 'v) list \<Rightarrow> 'k \<Rightarrow> 'v \<Rightarrow> ('k \<times> 'v) list" where
  "dict_set [] k v = [(k, v)]"
| "dict_set ((k', v') # d) k v = (if k' = k then (k, v) # d else (k', v') # dict_set d k v)"

section \<open>RetryHandler\<close>

record retry_handler =
  max_retries :: int
  base_delay :: real

text \<open>\<open>code in [2, 3, 4]\<close>: list membership compares with \<open>==\<close>.\<close>

definition should_retry :: "json \<Rightarrow> bool" where
  "should_retry code = list_ex (py_eq_int code) [2, 3, 4]"

text \<open>
  \<open>get_delay\<close>, with \<open>2 ** attempt\<close> and \<open>1.5 ** attempt\<close> for an integer exponent of either
  sign. The delays are computed in exact real arithmetic. Python computes them in binary64
  floating point: each operation rounds its exact result to the nearest double, and the
  conversion of \<open>2 ** attempt\<close> to a float raises \<open>OverflowError\<close> from attempt 1024 on.
  The two agree where every exact result is itself a double, which \<open>is_double\<close> below
  makes precise; beyond that the rounding and the overflow are not modelled.
\<close>

definition get_delay :: "retry_handler \<Rightarrow> json \<Rightarrow> int \<Rightarrow> real" where
  "get_delay rh code attempt =
     (if py_eq_int code 3 then base_delay rh * power_int 2 attempt
      else if py_eq_int code 4 then base_delay rh * 2
      else if py_eq_int code 2 then base_delay rh * power_int 1.5 attempt
      else base_delay rh)"

text \<open>The finite binary64 numbers: an integer of less than 53 bits times a power of two
  with an exponent from -1074 to 971.\<close>

definition is_double :: "real \<Rightarrow> bool" where
  "is_double x =
     (\<exists>m e. \<bar>m\<bar> < 2 ^ 53 \<and> - 1074 \<le> e \<and> e \<le> 971 \<and> x = of_int m * power_int 2 e)"

section \<open>Receipt\<close>

record receipt_item =
  item_name :: json
  item_price :: real
  item_quantity :: json
  item_sum :: real

text \<open>
  The dataclass \<open>Receipt\<close>. Python does not enforce the annotated field types, so a
  field copied from the response holds whatever JSON value the response carried.
  The type \<open>'dt\<close> is \<open>datetime\<close>.
\<close>

record 'dt receipt =
  code :: json
  is_valid :: bool
  date_time :: "'dt option"
  error_message :: "json option"
  organization :: json
  address :: json
  inn :: json
  date :: string
  time :: string
  place :: json
  cashier :: json
  receipt_number :: json
  shift_number :: json
  fiscal_drive_number :: json
  fiscal_document_number :: json
  fiscal_sign :: json
  operation_type :: json
  items :: "receipt_item list"
  total_sum :: real
  cash_sum :: real
  card_sum :: real
  vat_20 :: real
  vat_10 :: real
  vat_0 :: real
  vat_none :: real
  raw_response :: "(string \<times> json) list"
  html_content :: json

text \<open>\<open>Receipt(code=c, is_valid=v, date_time=dt, error_message=msg)\<close>: every other
  field takes its default.\<close>

definition Receipt :: "json \<Rightarrow> bool \<Rightarrow> 'dt option \<Rightarrow> json option \<Rightarrow> 'dt receipt" where
  "Receipt c v dt msg =
     \<lparr> code = c, is_valid = v, date_time = dt, error_message = msg,
       organization = JStr [], address = JStr [], inn = JStr [],
       date = [], time = [], place = JStr [], cashier = JStr [],
       receipt_number = JStr [], shift_number = JStr [],
       fiscal_drive_number = JStr [], fiscal_document_number = JStr [],
       fiscal_sign = JStr [], operation_type = JNum 0, items = [],
       total_sum = 0, cash_sum = 0, card_sum = 0,
       vat_20 = 0, vat_10 = 0, vat_0 = 0, vat_none = 0,
       raw_response = [], html_content = JStr [] \<rparr>"

section \<open>ReceiptCache\<close>

record 'dt receipt_cache =
  cache :: "(string \<times> 'dt receipt) list"
  max_size :: int
  hits :: int
  misses :: int

text \<open>\<open>ReceiptCache(max_size)\<close>.\<close>

definition new_cache :: "int \<Rightarrow> 'dt receipt_cache" where
  "new_cache n = \<lparr> cache = [], max_size = n, hits = 0, misses = 0 \<rparr>"

text \<open>\<open>ReceiptCache.get\<close>: the result and the cache with its counter advanced.\<close>

definition get :: "'dt receipt_cache \<Rightarrow> string \<Rightarrow> 'dt receipt option \<times> 'dt receipt_cache" where
  "get c key =
     (case map_of (cache c) key of
        Some r \<Rightarrow> (Some r, c\<lparr>hits := hits c + 1\<rparr>)
      | None \<Rightarrow> (None, c\<lparr>misses := misses c + 1\<rparr>))"

text \<open>
  \<open>ReceiptCache.put\<close>. \<open>next(iter(self.cache))\<close> is the first key in insertion order and
  raises \<open>StopIteration\<close> on an empty dict, before anything is changed.
\<close>

definition put :: "'dt receipt_cache \<Rightarrow> string \<Rightarrow> 'dt receipt \<Rightarrow> exn + 'dt receipt_cache" where
  "put c key r =
     (if int (length (cache c)) \<ge> max_size c then
        (case cache c of
           [] \<Rightarrow> Inl StopIteration
         | oldest # rest \<Rightarrow> Inr (c\<lparr>cache := dict_set rest key r\<rparr>))
      else Inr (c\<lparr>cache := dict_set (cache c) key r\<rparr>))"

text \<open>\<open>ReceiptCache.clear\<close>.\<close>

definition clear :: "'dt receipt_cache \<Rightarrow> 'dt receipt_cache" where
  "clear c = c\<lparr>cache := [], hits := 0, misses := 0\<rparr>"

section \<open>Library functions and the outside world\<close>

text \<open>What one call of \<open>requests.post\<close> followed by \<open>raise_for_status\<close> and \<open>json()\<close>
  can do: give the decoded body, raise a \<open>RequestException\<close> (with its message), or
  raise something else.\<close>

datatype outcome =
    Decoded json
  | RequestException string
  | OtherException string

text \<open>
  The library functions the code calls and the behaviour of the world around one run.
  They are parameters of the model: \<open>env_md5\<close> is the MD5 digest of a byte string, read
  as a number; \<open>env_strptime\<close> is \<open>datetime.strptime\<close> with the format
  \<open>%Y-%m-%dT%H:%M:%S\<close>, \<open>None\<close> where it raises \<open>ValueError\<close>; \<open>env_strftime\<close> is
  \<open>datetime.strftime\<close>; \<open>env_now\<close> is what \<open>datetime.now()\<close> reads; \<open>env_post k\<close> is the
  outcome of the \<open>k\<close>-th network call; \<open>env_exists\<close> is \<open>Path.exists\<close>.
\<close>

record 'dt env =
  env_md5 :: "string \<Rightarrow> nat"
  env_strptime :: "string \<Rightarrow> 'dt option"
  env_strftime :: "'dt \<Rightarrow> string \<Rightarrow> string"
  env_now :: "'dt"
  env_post :: "nat \<Rightarrow> outcome"
  env_exists :: "string \<Rightarrow> bool"

definition hex_digit :: "nat \<Rightarrow> char" where
  "hex_digit k = ''0123456789abcdef'' ! (k mod 16)"

text \<open>\<open>hexdigest()\<close> of a 128-bit digest: 32 hexadecimal digits.\<close>

definition hexdigest :: "nat \<Rightarrow> string" where
  "hexdigest d = map (\<lambda>i. hex_digit (d div 16 ^ (31 - i))) [0..<32]"

text \<open>\<open>hashlib.md5(x.encode()).hexdigest()\<close>. A string is its UTF-8 bytes.\<close>

definition md5_hexdigest :: "'dt env \<Rightarrow> string \<Rightarrow> string" where
  "md5_hexdigest env x = hexdigest (env_md5 env x)"

text \<open>\<open>str(i)\<close> for an integer.\<close>

fun str_nat :: "nat \<Rightarrow> string" where
  "str_nat k =
     (if k < 10 then [''0123456789'' ! k] else str_nat (k div 10) @ [''0123456789'' ! (k mod 10)])"

declare str_nat.simps [simp del]

definition str_int :: "int \<Rightarrow> string" where
  "str_int i = (if i < 0 then CHR ''-'' # str_nat (nat (- i)) else str_nat (nat i))"

section \<open>Parsing a response\<close>

text \<open>Sequencing of computations that may raise.\<close>

definition bind_exn :: "exn + 'a \<Rightarrow> ('a \<Rightarrow> exn + 'b) \<Rightarrow> exn + 'b" where
  "bind_exn m f = (case m of Inl e \<Rightarrow> Inl e | Inr x \<Rightarrow> f x)"

text \<open>\<open>x / 100\<close>: defined on numbers (and booleans), \<open>TypeError\<close> otherwise.\<close>

definition div100 :: "json \<Rightarrow> exn + real" where
  "div100 j = (case as_num j of Some r \<Rightarrow> Inr (r / 100) | None \<Rightarrow> Inl TypeError)"

text \<open>What \<open>for x in v\<close> iterates over: the elements of a list, the keys of a dict,
  the characters of a string; anything else is not iterable.\<close>

definition py_iter :: "json \<Rightarrow> exn + json list" where
  "py_iter v = (case v of JArr xs \<Rightarrow> Inr xs | JObj kvs \<Rightarrow> Inr (map (\<lambda>kv. JStr (fst kv)) kvs)
     | JStr cs \<Rightarrow> Inr (map (\<lambda>ch. JStr [ch]) cs) | _ \<Rightarrow> Inl TypeError)"

text \<open>The table \<open>error_messages\<close> and its lookup \<open>code in error_messages\<close>, for a
  hashable code.\<close>

definition error_messages :: "(int \<times> string) list" where
  "error_messages =
     [(0, ''Invalid receipt''),
      (2, ''Receipt data not yet available''),
      (3, ''Request limit exceeded''),
      (4, ''Wait before retrying''),
      (5, ''Data not received'')]"

definition lookup_error_message :: "json \<Rightarrow> string option" where
  "lookup_error_message c = map_option snd (find (\<lambda>kv. py_eq_int c (fst kv)) error_messages)"

text \<open>The date: \<open>strptime\<close> only if \<open>date_str\<close> is true; a \<open>ValueError\<close> is caught and
  gives \<open>None\<close>; a true value that is no string makes \<open>strptime\<close> raise \<open>TypeError\<close>.\<close>

definition parse_date_time :: "'dt env \<Rightarrow> json \<Rightarrow> exn + 'dt option" where
  "parse_date_time env date_str =
     (if truthy date_str then
        (case date_str of JStr str \<Rightarrow> Inr (env_strptime env str) | _ \<Rightarrow> Inl TypeError)
      else Inr None)"

text \<open>One round of the loop over the items.\<close>

definition parse_item :: "json \<Rightarrow> exn + receipt_item" where
  "parse_item item_data =
     (case item_data of
        JObj it \<Rightarrow>
          bind_exn (div100 (dict_get it ''price'' (JNum 0))) (\<lambda>p.
          bind_exn (div100 (dict_get it ''sum'' (JNum 0))) (\<lambda>sm.
          Inr \<lparr> item_name = dict_get it ''name'' (JStr []), item_price = p,
                item_quantity = dict_get it ''quantity'' (JNum 0), item_sum = sm \<rparr>))
      | _ \<Rightarrow> Inl AttributeError)"

fun parse_items :: "json list \<Rightarrow> exn + receipt_item list" where
  "parse_items [] = Inr []"
| "parse_items (x # xs) =
     bind_exn (parse_item x) (\<lambda>it. bind_exn (parse_items xs) (\<lambda>its. Inr (it # its)))"

text \<open>The branch for \<open>code == 1\<close>. Only a dict has \<open>get\<close>: on any other value of
  \<open>data\<close> or \<open>json\<close> the call raises \<open>AttributeError\<close>. \<open>date_time.strftime\<close> raises
  \<open>AttributeError\<close> when \<open>date_time\<close> is \<open>None\<close>; it is reached after the loop over the
  items. The constructor is not given \<open>date_time\<close>, which keeps its default \<open>None\<close>.\<close>

definition parse_success :: "'dt env \<Rightarrow> json \<Rightarrow> (string \<times> json) list \<Rightarrow> exn + 'dt receipt" where
  "parse_success env c response =
     (case dict_get response ''data'' (JObj []) of
        JObj outer \<Rightarrow>
          (case dict_get outer ''json'' (JObj []) of
             JObj data \<Rightarrow>
               bind_exn (parse_date_time env (dict_get data ''dateTime'' (JStr []))) (\<lambda>dt.
               bind_exn (py_iter (dict_get data ''items'' (JArr []))) (\<lambda>item_datas.
               bind_exn (parse_items item_datas) (\<lambda>its.
               (case dt of
                  None \<Rightarrow> Inl AttributeError
                | Some d \<Rightarrow>
                    bind_exn (div100 (dict_get data ''totalSum'' (JNum 0))) (\<lambda>total.
                    bind_exn (div100 (dict_get data ''cashTotalSum'' (JNum 0))) (\<lambda>cash.
                    bind_exn (div100 (dict_get data ''ecashTotalSum'' (JNum 0))) (\<lambda>card.
                    bind_exn (div100 (dict_get data ''nds18'' (JNum 0))) (\<lambda>v20.
                    bind_exn (div100 (dict_get data ''nds'' (JNum 0))) (\<lambda>v10.
                    bind_exn (div100 (dict_get data ''nds0'' (JNum 0))) (\<lambda>v0.
                    bind_exn (div100 (dict_get data ''ndsNo'' (JNum 0))) (\<lambda>vno.
                    Inr \<lparr> code = c, is_valid = True, date_time = None, error_message = None,
                          organization = dict_get data ''user'' (JStr []),
                          address = dict_get data ''retailPlaceAddress'' (JStr []),
                          inn = dict_get data ''userInn'' (JStr []),
                          date = env_strftime env d ''%Y-%m-%d'',
                          time = env_strftime env d ''%H:%M:%S'',
                          place = dict_get data ''retailPlace'' (JStr []),
                          cashier = dict_get data ''operator'' (JStr []),
                          receipt_number = dict_get data ''requestNumber'' (JStr []),
                          shift_number = dict_get data ''shiftNumber'' (JStr []),
                          fiscal_drive_number = dict_get data ''fiscalDriveNumber'' (JStr []),
                          fiscal_document_number = dict_get data ''fiscalDocumentNumber'' (JStr []),
                          fiscal_sign = dict_get data ''fiscalSign'' (JStr []),
                          operation_type = dict_get data ''operationType'' (JNum 0),
                          items = its,
                          total_sum = total, cash_sum = cash, card_sum = card,
                          vat_20 = v20, vat_10 = v10, vat_0 = v0, vat_none = vno,
                          raw_response = response,
                          html_content = dict_get outer ''html'' (JStr []) \<rparr>)))))))))))
           | _ \<Rightarrow> Inl AttributeError)
      | _ \<Rightarrow> Inl AttributeError)"

text \<open>\<open>Receipt.from_api_response\<close>.\<close>

definition from_api_response :: "'dt env \<Rightarrow> (string \<times> json) list \<Rightarrow> exn + 'dt receipt" where
  "from_api_response env response =
     (let c = dict_get response ''code'' (JNum (- 1)) in
      if \<not> hashable c then Inl TypeError
      else
        (case lookup_error_message c of
           Some msg \<Rightarrow> Inr (Receipt c False (Some (env_now env)) (Some (JStr msg)))
         | None \<Rightarrow>
             if \<not> py_eq_int c 1 then
               Inr (Receipt c False (Some (env_now env))
                      (Some (dict_get response ''error'' (JStr ''Unknown error''))))
             else parse_success env c response))"

section \<open>RequestParams\<close>

record request_params =
  rp_fn :: string
  rp_fd :: string
  rp_fp :: string
  rp_t :: string
  rp_n :: string
  rp_s :: string
  rp_qr :: string

definition to_dict :: "request_params \<Rightarrow> (string \<times> string) list" where
  "to_dict p =
     [(''fn'', rp_fn p), (''fd'', rp_fd p), (''fp'', rp_fp p), (''t'', rp_t p),
      (''n'', rp_n p), (''s'', rp_s p), (''qr'', rp_qr p)]"

definition fingerprint :: "'dt env \<Rightarrow> request_params \<Rightarrow> string" where
  "fingerprint env p =
     md5_hexdigest env (rp_fn p @ ''_'' @ rp_fd p @ ''_'' @ rp_fp p @ ''_'' @ rp_t p)"

section \<open>Objects, file handles and effects\<close>

text \<open>
  The request objects live in a store, so that a caller and \<open>verify_receipt\<close> can hold
  the same object: a reference is an index into \<open>heap\<close>, and a new object is appended.
  A file handle is an index into \<open>handles\<close>, whose entry tells whether it is open.
  \<open>trace\<close> lists the effects of a run in order, \<open>posts\<close> counts the network calls, and
  \<open>rcache\<close> is the verifier's \<open>self.cache\<close>.
\<close>

datatype pyobj =
    ODict "(string \<times> string) list"
  | OParams request_params

text \<open>A network call with the data sent and, for each attached file, its key, its
  handle and whether the handle was open; a sleep; the closing of a handle.\<close>

datatype event =
    EvPost "(string \<times> string) list" "(string \<times> nat \<times> bool) list"
  | EvSleep real
  | EvClose nat

record 'dt state =
  rcache :: "'dt receipt_cache"
  heap :: "pyobj list"
  handles :: "bool list"
  posts :: nat
  trace :: "event list"

definition alloc :: "pyobj \<Rightarrow> 'dt state \<Rightarrow> nat \<times> 'dt state" where
  "alloc ob st = (length (heap st), st\<lparr>heap := heap st @ [ob]\<rparr>)"

text \<open>The dict a reference points to.\<close>

definition dict_at :: "'dt state \<Rightarrow> nat \<Rightarrow> (string \<times> string) list" where
  "dict_at st a = (case heap st ! a of ODict d \<Rightarrow> d | OParams p \<Rightarrow> [])"

text \<open>\<open>d[k] = v\<close> on the dict behind a reference.\<close>

definition heap_set :: "nat \<Rightarrow> string \<Rightarrow> string \<Rightarrow> 'dt state \<Rightarrow> 'dt state" where
  "heap_set a k v st = st\<lparr>heap := (heap st)[a := ODict (dict_set (dict_at st a) k v)]\<rparr>"

section \<open>RequestBuilder\<close>

definition from_manual_params :: "nat \<Rightarrow> nat" where
  "from_manual_params data = data"

definition from_qr_string :: "string \<Rightarrow> 'dt state \<Rightarrow> nat \<times> 'dt state" where
  "from_qr_string qr_string st = alloc (ODict [(''qrraw'', qr_string)]) st"

definition from_qr_url :: "string \<Rightarrow> 'dt state \<Rightarrow> nat \<times> 'dt state" where
  "from_qr_url url st = alloc (ODict [(''qrurl'', url)]) st"

text \<open>\<open>from_qr_file\<close> opens the file and returns the empty request with the handle.\<close>

definition from_qr_file ::
  "'dt env \<Rightarrow> string \<Rightarrow> 'dt state \<Rightarrow> (exn + nat \<times> (string \<times> nat) list) \<times> 'dt state" where
  "from_qr_file env file_path st =
     (if \<not> env_exists env file_path then
        (Inl (FileNotFoundError (''QR image file not found: '' @ file_path)), st)
      else
        (let h = length (handles st);
             st1 = st\<lparr>handles := handles st @ [True]\<rparr>;
             (data, st2) = alloc (ODict []) st1
         in (Inr (data, [(''qrfile'', h)]), st2)))"

section \<open>ReceiptVerifier\<close>

record receipt_verifier =
  token :: string
  api_url :: string
  retry_handler :: retry_handler

text \<open>\<open>ReceiptVerifier(token, max_retries, cache_size)\<close>: the verifier and its empty cache.\<close>

definition new_verifier :: "string \<Rightarrow> int \<Rightarrow> receipt_verifier" where
  "new_verifier tok retries =
     \<lparr> token = tok, api_url = ''https://proverkacheka.com/api/v1/check/get'',
       retry_handler = \<lparr> max_retries = retries, base_delay = 1 \<rparr> \<rparr>"

text \<open>What one round of the retry loop does with the loop: go to the next round, or
  leave \<open>verify_receipt\<close> with a receipt or an exception.\<close>

datatype 'dt step =
    Continue "'dt state"
  | Return "exn + 'dt receipt" "'dt state"

text \<open>The network call: its outcome is the next one of the world, and the data and
  the state of the attached handles are recorded.\<close>

definition file_status :: "'dt state \<Rightarrow> (string \<times> nat) list option \<Rightarrow> (string \<times> nat \<times> bool) list" where
  "file_status st files =
     (case files of None \<Rightarrow> [] | Some fs \<Rightarrow> map (\<lambda>kh. (fst kh, snd kh, handles st ! snd kh)) fs)"

definition do_post :: "'dt env \<Rightarrow> nat \<Rightarrow> (string \<times> nat) list option \<Rightarrow> 'dt state \<Rightarrow> outcome \<times> 'dt state" where
  "do_post env request_dict files st =
     (env_post env (posts st),
      st\<lparr>posts := posts st + 1,
         trace := trace st @ [EvPost (dict_at st request_dict) (file_status st files)]\<rparr>)"

definition sleep :: "real \<Rightarrow> 'dt state \<Rightarrow> 'dt state" where
  "sleep delay st = st\<lparr>trace := trace st @ [EvSleep delay]\<rparr>"

text \<open>The \<open>finally\<close> clause: every value of \<open>files\<close> is a file object and is closed.\<close>

definition close_files :: "(string \<times> nat) list option \<Rightarrow> 'dt state \<Rightarrow> 'dt state" where
  "close_files files st =
     (case files of
        None \<Rightarrow> st
      | Some fs \<Rightarrow>
          fold (\<lambda>kh s'. s'\<lparr>handles := (handles s')[snd kh := False],
                            trace := trace s' @ [EvClose (snd kh)]\<rparr>) fs st)"

text \<open>\<open>if cache_key:\<close> holds for a key that is neither \<open>None\<close> nor the empty string.\<close>

definition key_true :: "string option \<Rightarrow> bool" where
  "key_true cache_key = (case cache_key of None \<Rightarrow> False | Some k \<Rightarrow> k \<noteq> [])"

text \<open>The \<open>try\<close> block of one round with its \<open>except\<close> clause.\<close>

definition attempt_try ::
  "'dt env \<Rightarrow> receipt_verifier \<Rightarrow> string option \<Rightarrow> nat \<Rightarrow> (string \<times> nat) list option \<Rightarrow>
   int \<Rightarrow> 'dt state \<Rightarrow> 'dt step" where
  "attempt_try env self cache_key request_dict files attempt st =
     (case do_post env request_dict files st of
        (RequestException e, st1) \<Rightarrow>
          if attempt < max_retries (retry_handler self) - 1 then
            Continue (sleep (base_delay (retry_handler self) * power_int 2 attempt) st1)
          else
            Return (Inr (Receipt (JNum (- 1)) False (Some (env_now env))
                           (Some (JStr (''Network error: '' @ e))))) st1
      | (OtherException e, st1) \<Rightarrow> Return (Inl (Propagated e)) st1
      | (Decoded body, st1) \<Rightarrow>
          (case body of
             JObj result \<Rightarrow>
               (let c = dict_get result ''code'' (JNum (- 1)) in
                if py_eq_int c 1 then
                  (case from_api_response env result of
                     Inl ex \<Rightarrow> Return (Inl ex) st1
                   | Inr formed_receipt \<Rightarrow>
                       if key_true cache_key \<and> is_valid formed_receipt then
                         (case put (rcache st1) (the cache_key) formed_receipt of
                            Inl ex \<Rightarrow> Return (Inl ex) st1
                          | Inr c' \<Rightarrow> Return (Inr formed_receipt) (st1\<lparr>rcache := c'\<rparr>))
                       else Return (Inr formed_receipt) st1)
                else if should_retry c \<and> attempt < max_retries (retry_handler self) - 1 then
                  Continue (sleep (get_delay (retry_handler self) c attempt) st1)
                else Return (from_api_response env result) st1)
           | _ \<Rightarrow> Return (Inl AttributeError) st1))"

text \<open>One round: the \<open>try\<close> block, then the \<open>finally\<close> clause on every way out of it.\<close>

definition attempt_round ::
  "'dt env \<Rightarrow> receipt_verifier \<Rightarrow> string option \<Rightarrow> nat \<Rightarrow> (string \<times> nat) list option \<Rightarrow>
   int \<Rightarrow> 'dt state \<Rightarrow> 'dt step" where
  "attempt_round env self cache_key request_dict files attempt st =
     (case attempt_try env self cache_key request_dict files attempt st of
        Continue st' \<Rightarrow> Continue (close_files files st')
      | Return res st' \<Rightarrow> Return res (close_files files st'))"

text \<open>The loop \<open>for attempt in range(max_retries)\<close> and the \<open>return\<close> after it.\<close>

fun retry_loop ::
  "'dt env \<Rightarrow> receipt_verifier \<Rightarrow> string option \<Rightarrow> nat \<Rightarrow> (string \<times> nat) list option \<Rightarrow>
   int list \<Rightarrow> 'dt state \<Rightarrow> (exn + 'dt receipt) \<times> 'dt state" where
  "retry_loop env self cache_key request_dict files [] st =
     (Inr (Receipt (JNum (- 1)) False (Some (env_now env)) (Some (JStr ''Max retries exceeded''))), st)"
| "retry_loop env self cache_key request_dict files (attempt # rest) st =
     (case attempt_round env self cache_key request_dict files attempt st of
        Continue st' \<Rightarrow> retry_loop env self cache_key request_dict files rest st'
      | Return res st' \<Rightarrow> (res, st'))"

text \<open>\<open>range(k)\<close>.\<close>

definition py_range :: "int \<Rightarrow> int list" where
  "py_range k = map int [0..<nat k]"

text \<open>The request dict and the cache key of a request object: a \<open>RequestParams\<close> is
  converted and fingerprinted, a dict is copied and has a key only if it has \<open>qrraw\<close>.\<close>

definition request_dict_and_key ::
  "'dt env \<Rightarrow> pyobj \<Rightarrow> (string \<times> string) list \<times> string option" where
  "request_dict_and_key env request_data =
     (case request_data of
        OParams p \<Rightarrow> (to_dict p, Some (fingerprint env p))
      | ODict d \<Rightarrow>
          (d, case map_of d ''qrraw'' of
                None \<Rightarrow> None
              | Some payload \<Rightarrow> Some (md5_hexdigest env payload)))"

text \<open>The cache check: \<open>get\<close> is called for a true key, and a receipt found is returned
  (a \<open>Receipt\<close> object is always true).\<close>

definition check_cache :: "string option \<Rightarrow> 'dt state \<Rightarrow> 'dt receipt option \<times> 'dt state" where
  "check_cache cache_key st =
     (if key_true cache_key then
        (case get (rcache st) (the cache_key) of (cached, c') \<Rightarrow> (cached, st\<lparr>rcache := c'\<rparr>))
      else (None, st))"

text \<open>The token and the optional parameters, written into the request dict.\<close>

definition add_parameters ::
  "receipt_verifier \<Rightarrow> nat \<Rightarrow> int option \<Rightarrow> (string \<times> string) list option \<Rightarrow> 'dt state \<Rightarrow> 'dt state" where
  "add_parameters self request_dict promo_id userdata st =
     (let st1 = heap_set request_dict ''token'' (token self) st;
          st2 = (case promo_id of
                   None \<Rightarrow> st1
                 | Some p \<Rightarrow> if p \<noteq> 0 then heap_set request_dict ''promo_id'' (str_int p) st1 else st1)
      in case userdata of
           None \<Rightarrow> st2
         | Some u \<Rightarrow> fold (\<lambda>kv s'. heap_set request_dict (''userdata_'' @ fst kv) (snd kv) s') u st2)"

text \<open>\<open>ReceiptVerifier.verify_receipt\<close>. \<open>request_data\<close> is a reference to the caller's
  object, which is in the store.\<close>

definition verify_receipt ::
  "'dt env \<Rightarrow> receipt_verifier \<Rightarrow> nat \<Rightarrow> (string \<times> nat) list option \<Rightarrow> int option \<Rightarrow>
   (string \<times> string) list option \<Rightarrow> 'dt state \<Rightarrow> (exn + 'dt receipt) \<times> 'dt state" where
  "verify_receipt env self request_data files promo_id userdata st =
     (case request_dict_and_key env (heap st ! request_data) of
        (d, cache_key) \<Rightarrow>
          (case alloc (ODict d) st of
             (request_dict, st1) \<Rightarrow>
               (case check_cache cache_key st1 of
                  (Some cached, st2) \<Rightarrow> (Inr cached, st2)
                | (None, st2) \<Rightarrow>
                    retry_loop env self cache_key request_dict files
                      (py_range (max_retries (retry_handler self)))
                      (add_parameters self request_dict promo_id userdata st2))))"

section \<open>Runs and a sample world\<close>

text \<open>A sequence of \<open>put\<close> calls on a cache; an exception ends it.\<close>

fun puts :: "'dt receipt_cache \<Rightarrow> (string \<times> 'dt receipt) list \<Rightarrow> exn + 'dt receipt_cache" where
  "puts c [] = Inr c"
| "puts c (kv # kvs) = (case put c (fst kv) (snd kv) of Inl e \<Rightarrow> Inl e | Inr c' \<Rightarrow> puts c' kvs)"

text \<open>A sequence of \<open>verify_receipt\<close> calls on one verifier, each with its arguments;
  an exception of one call is seen by its caller and the next call goes on.\<close>

type_synonym call = "nat \<times> (string \<times> nat) list option \<times> int option \<times> (string \<times> string) list option"

fun verify_many :: "'dt env \<Rightarrow> receipt_verifier \<Rightarrow> call list \<Rightarrow> 'dt state \<Rightarrow> 'dt state" where
  "verify_many env self [] st = st"
| "verify_many env self ((request_data, files, promo_id, userdata) # calls) st =
     verify_many env self calls (snd (verify_receipt env self request_data files promo_id userdata st))"

text \<open>The state of a fresh verifier: an empty cache of the given size, the caller's
  objects in the store and its open handles.\<close>

definition initial_state :: "int \<Rightarrow> pyobj list \<Rightarrow> nat \<Rightarrow> 'dt state" where
  "initial_state cache_size objs k =
     \<lparr> rcache = new_cache cache_size, heap = objs, handles = replicate k True,
       posts = 0, trace = [] \<rparr>"

text \<open>
  A sample world for worked examples: a \<open>datetime\<close> is the string it was parsed from, the
  network answers with the outcomes of a script and then fails, every file exists. The
  digest is a stand-in; no example depends on its values.
\<close>

definition sample_env :: "outcome list \<Rightarrow> string env" where
  "sample_env script =
     \<lparr> env_md5 = (\<lambda>x. length x),
       env_strptime = (\<lambda>x. if length x = 19 then Some x else None),
       env_strftime = (\<lambda>d f. if f = ''%Y-%m-%d'' then take 10 d else drop 11 d),
       env_now = ''2025-01-01T00:00:00'',
       env_post = (\<lambda>k. if k < length script then script ! k else RequestException ''timeout''),
       env_exists = (\<lambda>p. True) \<rparr>"

definition valid_receipt :: "string receipt" where
  "valid_receipt = Receipt (JNum 1) True None None"

definition invalid_receipt :: "string receipt" where
  "invalid_receipt = Receipt (JNum 0) False None (Some (JStr ''Invalid receipt''))"

text \<open>The invariant of the cache: every stored receipt is valid.\<close>

definition all_valid :: "'dt receipt_cache \<Rightarrow> bool" where
  "all_valid c = list_all (\<lambda>kv. is_valid (snd kv)) (cache c)"

text \<open>The fiscal fields of the QR string in the docstring of \<open>from_qr_string\<close>.\<close>

definition sample_params :: request_params where
  "sample_params =
     \<lparr> rp_fn = ''9282440300682838'', rp_fd = ''46534'', rp_fp = ''1273019065'',
       rp_t = ''20200924T1837'', rp_n = ''1'', rp_s = ''349.93'', rp_qr = ''0'' \<rparr>"

text \<open>A response of the service with the given code and nothing else.\<close>

definition code_response :: "int \<Rightarrow> outcome" where
  "code_response k = Decoded (JObj [(''code'', JNum (of_int k))])"

text \<open>A successful response with a timestamp and a total.\<close>

definition success_response :: outcome where
  "success_response =
     Decoded (JObj [(''code'', JNum 1),
       (''data'', JObj [(''json'', JObj [(''dateTime'', JStr ''2020-09-24T18:37:00''),
                                         (''totalSum'', JNum 100000)])])])"

section \<open>Properties of the cache and of the retry delays\<close>

subsection \<open>Auxiliary facts\<close>

lemma length_dict_set:
  "length (dict_set d k v) = (if k \<in> fst ` set d then length d else Suc (length d))"
  by (induction d) force+

lemma dict_set_new: "k \<notin> fst ` set d \<Longrightarrow> dict_set d k v = d @ [(k, v)]"
  by (induction d) auto

lemma get_keeps_entries: "cache (snd (get c k)) = cache c \<and> max_size (snd (get c k)) = max_size c"
  by (simp add: get_def split: option.splits)

lemma puts_fill:
  assumes "distinct (map fst (pre @ kvs))" and "cache c = pre"
    and "int (length (pre @ kvs)) \<le> max_size c"
  shows "\<exists>c'. puts c kvs = Inr c' \<and> cache c' = pre @ kvs \<and> max_size c' = max_size c"
  using assms
proof (induction kvs arbitrary: c pre)
  case Nil
  then show ?case by simp
next
  case (Cons kv kvs)
  have new: "fst kv \<notin> fst ` set pre" using Cons.prems(1) by auto
  have small: "\<not> int (length (cache c)) \<ge> max_size c" using Cons.prems by simp
  define c1 where "c1 = c\<lparr>cache := pre @ [kv]\<rparr>"
  have step: "put c (fst kv) (snd kv) = Inr c1"
    using small new Cons.prems(2) by (simp add: put_def dict_set_new c1_def)
  have "\<exists>c'. puts c1 kvs = Inr c' \<and> cache c' = (pre @ [kv]) @ kvs \<and> max_size c' = max_size c1"
    by (rule Cons.IH) (use Cons.prems in \<open>simp_all add: c1_def\<close>)
  then show ?case using step by (simp add: c1_def)
qed

subsection \<open>Retry delays\<close>

lemma is_doubleI:
  "\<bar>m\<bar> < 2 ^ 53 \<Longrightarrow> - 1074 \<le> e \<Longrightarrow> e \<le> 971 \<Longrightarrow> x = of_int m * power_int 2 e \<Longrightarrow> is_double x"
  unfolding is_double_def by blast

text \<open>
  C6. On the floats where binary64 arithmetic is exact, \<open>get_delay\<close> returns exactly
  \<open>base * 2 ^ attempt\<close> for code 3 (\<open>base\<close> at attempt 0 and \<open>2 * base\<close> at attempt 1), the
  constant \<open>2 * base\<close> for code 4 at every attempt, and \<open>base * 1.5 ^ attempt\<close> for code 2
  (\<open>base\<close> at attempt 0 and \<open>1.5 * base\<close> at attempt 1). These floats are: a base that is a
  double, an attempt from 0 to 1023 for code 3 (\<open>2 ** attempt\<close> converts to a float
  without overflow) and from 0 to 33 for code 2 (\<open>1.5 ** attempt\<close> is a double), and a
  product that is a double, so that the multiplication does not round or overflow.
\<close>

theorem get_delay_exact:
  assumes "is_double (base_delay rh)"
  shows "(0 \<le> attempt \<and> attempt \<le> 1023 \<and> is_double (base_delay rh * power_int 2 attempt) \<longrightarrow>
            get_delay rh (JNum 3) attempt = base_delay rh * power_int 2 attempt)
         \<and> (is_double (2 * base_delay rh) \<longrightarrow> get_delay rh (JNum 4) attempt = 2 * base_delay rh)
         \<and> (0 \<le> attempt \<and> attempt \<le> 33 \<and> is_double (base_delay rh * power_int 1.5 attempt) \<longrightarrow>
              get_delay rh (JNum 2) attempt = base_delay rh * power_int 1.5 attempt)
         \<and> get_delay rh (JNum 3) 0 = base_delay rh
         \<and> (is_double (2 * base_delay rh) \<longrightarrow> get_delay rh (JNum 3) 1 = 2 * base_delay rh)
         \<and> get_delay rh (JNum 2) 0 = base_delay rh
         \<and> (is_double (1.5 * base_delay rh) \<longrightarrow> get_delay rh (JNum 2) 1 = 1.5 * base_delay rh)"
  by (simp add: get_delay_def py_eq_int_def as_num_def)

theorem get_delay_exact_witness:
  "is_double (base_delay \<lparr> max_retries = 3, base_delay = 1 \<rparr>)
   \<and> get_delay \<lparr> max_retries = 3, base_delay = 1 \<rparr> (JNum 3) 0 = 1
   \<and> get_delay \<lparr> max_retries = 3, base_delay = 1 \<rparr> (JNum 3) 1 = 2
   \<and> get_delay \<lparr> max_retries = 3, base_delay = 1 \<rparr> (JNum 4) 1 = 2
   \<and> get_delay \<lparr> max_retries = 3, base_delay = 1 \<rparr> (JNum 2) 0 = 1
   \<and> get_delay \<lparr> max_retries = 3, base_delay = 1 \<rparr> (JNum 2) 1 = 3 / 2"
proof -
  have d1: "is_double 1" by (rule is_doubleI [of 1 0]) simp_all
  have d2: "is_double 2" by (rule is_doubleI [of 1 1]) simp_all
  have d3: "is_double (3 / 2)" by (rule is_doubleI [of 3 "- 1"]) simp_all
  show ?thesis
    using get_delay_exact [of "\<lparr> max_retries = 3, base_delay = 1 \<rparr>" 1] d1 d2 d3 by simp
qed

subsection \<open>Eviction\<close>

text \<open>
  C4, as the code has it. In a cache of capacity \<open>N \<ge> 1\<close> filled by \<open>N\<close> puts under
  distinct keys, the entries are held in the order of insertion; a \<open>get\<close> of any key \<open>k\<close>
  leaves the entries and their order as they are; and a put under a further new key then
  removes exactly the first-inserted entry and appends the new one, whichever entry the
  \<open>get\<close> has read.
\<close>

theorem put_evicts_first_inserted:
  assumes "kvs \<noteq> []" and "distinct (map fst (kvs @ [(key, r)]))"
  shows "\<exists>c. puts (new_cache (int (length kvs))) kvs = Inr c \<and> cache c = kvs
           \<and> cache (snd (get c k)) = cache c
           \<and> (\<exists>c'. put (snd (get c k)) key r = Inr c' \<and> cache c' = tl kvs @ [(key, r)])"
proof -
  have "\<exists>c'. puts (new_cache (int (length kvs))) kvs = Inr c' \<and> cache c' = [] @ kvs
          \<and> max_size c' = max_size (new_cache (int (length kvs)) :: 'a receipt_cache)"
    by (rule puts_fill) (use assms in \<open>simp_all add: new_cache_def\<close>)
  then obtain c where c: "puts (new_cache (int (length kvs))) kvs = Inr c" "cache c = kvs"
    "max_size c = int (length kvs)" by (auto simp: new_cache_def)
  obtain kv rest where kvs: "kvs = kv # rest" using assms(1) by (cases kvs) auto
  have new: "key \<notin> fst ` set rest" using assms(2) kvs by auto
  have "put (snd (get c k)) key r = Inr ((snd (get c k))\<lparr>cache := rest @ [(key, r)]\<rparr>)"
    using c kvs new by (simp add: put_def get_keeps_entries dict_set_new)
  then show ?thesis using c kvs by (simp add: get_keeps_entries)
qed

theorem put_evicts_first_inserted_witness:
  "[(''A'', valid_receipt), (''B'', valid_receipt)] \<noteq> []
   \<and> distinct (map fst ([(''A'', valid_receipt), (''B'', valid_receipt)] @ [(''C'', valid_receipt)]))
   \<and> (\<exists>c. puts (new_cache (int (length [(''A'', valid_receipt), (''B'', valid_receipt)])))
              [(''A'', valid_receipt), (''B'', valid_receipt)] = Inr c
           \<and> cache c = [(''A'', valid_receipt), (''B'', valid_receipt)]
           \<and> cache (snd (get c ''A'')) = cache c
           \<and> (\<exists>c'. put (snd (get c ''A'')) ''C'' valid_receipt = Inr c'
                 \<and> cache c' = tl [(''A'', valid_receipt), (''B'', valid_receipt)] @ [(''C'', valid_receipt)]))"
  using put_evicts_first_inserted [of "[(''A'', valid_receipt), (''B'', valid_receipt)]" "''C''" valid_receipt "''A''"]
  by simp

text \<open>
  C4 as stated fails: with capacity 2 and the entries A and B, reading A with \<open>get\<close> and
  then inserting C evicts A, the entry most recently read.
\<close>

theorem eviction_removes_entry_just_read:
  "puts (new_cache 2) [(''A'', valid_receipt), (''B'', valid_receipt)]
     = Inr \<lparr> cache = [(''A'', valid_receipt), (''B'', valid_receipt)], max_size = 2, hits = 0, misses = 0 \<rparr>
   \<and> get \<lparr> cache = [(''A'', valid_receipt), (''B'', valid_receipt)], max_size = 2, hits = 0, misses = 0 \<rparr> ''A''
     = (Some valid_receipt, \<lparr> cache = [(''A'', valid_receipt), (''B'', valid_receipt)], max_size = 2, hits = 1, misses = 0 \<rparr>)
   \<and> put \<lparr> cache = [(''A'', valid_receipt), (''B'', valid_receipt)], max_size = 2, hits = 1, misses = 0 \<rparr> ''C'' valid_receipt
     = Inr \<lparr> cache = [(''B'', valid_receipt), (''C'', valid_receipt)], max_size = 2, hits = 1, misses = 0 \<rparr>"
  by (simp add: put_def get_def new_cache_def)

text \<open>
  C10, as the code has it. In a cache of capacity at least 1, a put on a cache that holds
  at least \<open>max_size\<close> entries removes the earliest-inserted entry and then stores the
  receipt in what is left, also when the key is among the entries left, where the number
  of entries goes down by one; and a put on a cache that holds at most \<open>max_size\<close>
  entries succeeds and leaves at most \<open>max_size\<close> entries.
\<close>

theorem put_at_capacity:
  assumes "1 \<le> max_size c"
  shows "(max_size c \<le> int (length (cache c)) \<longrightarrow>
            put c key r = Inr (c\<lparr>cache := dict_set (tl (cache c)) key r\<rparr>)
            \<and> (key \<in> fst ` set (tl (cache c)) \<longrightarrow>
                 length (dict_set (tl (cache c)) key r) = length (cache c) - 1))
         \<and> (int (length (cache c)) \<le> max_size c \<longrightarrow>
              (\<exists>c'. put c key r = Inr c' \<and> max_size c' = max_size c
                    \<and> int (length (cache c')) \<le> max_size c))"
proof (cases "cache c")
  case Nil
  then show ?thesis using assms by (simp add: put_def)
next
  case (Cons kv rest)
  then show ?thesis using assms by (auto simp: put_def length_dict_set)
qed

theorem put_at_capacity_witness:
  "1 \<le> max_size \<lparr> cache = [(''A'', valid_receipt), (''B'', valid_receipt)], max_size = 2, hits = 0, misses = 0 \<rparr>
   \<and> put \<lparr> cache = [(''A'', valid_receipt), (''B'', valid_receipt)], max_size = 2, hits = 0, misses = 0 \<rparr> ''B'' invalid_receipt
       = Inr \<lparr> cache = [(''B'', invalid_receipt)], max_size = 2, hits = 0, misses = 0 \<rparr>"
  using put_at_capacity [of "\<lparr> cache = [(''A'', valid_receipt), (''B'', valid_receipt)], max_size = 2, hits = 0, misses = 0 \<rparr>" "''B''" invalid_receipt]
  by simp

text \<open>
  C10 as stated fails for capacity 0: the cache holds at least \<open>max_size\<close> entries, and
  put raises \<open>StopIteration\<close>; nothing is removed and nothing is stored.
\<close>

theorem put_zero_capacity_raises:
  "put (new_cache 0) ''A'' valid_receipt = Inl StopIteration"
  by (simp add: put_def new_cache_def)

section \<open>Properties of the parser\<close>

lemma code_one_hashable: "py_eq_int c 1 \<Longrightarrow> hashable c"
  by (cases c) (simp_all add: py_eq_int_def as_num_def hashable_def)

lemma code_one_no_message: "py_eq_int c 1 \<Longrightarrow> lookup_error_message c = None"
  by (simp add: lookup_error_message_def error_messages_def py_eq_int_def)

lemma parse_date_time_absent: "parse_date_time env (JStr []) = Inr None"
  by (simp add: parse_date_time_def truthy_def)

lemma parse_date_time_unparsed:
  "env_strptime env str = None \<Longrightarrow> parse_date_time env (JStr str) = Inr None"
  by (simp add: parse_date_time_def truthy_def)

lemma parse_success_without_date:
  assumes "dict_get response ''data'' (JObj []) = JObj outer"
    and "dict_get outer ''json'' (JObj []) = JObj data"
    and "parse_date_time env (dict_get data ''dateTime'' (JStr [])) = Inr None"
  shows "isl (parse_success env c response)"
  using assms by (simp add: parse_success_def bind_exn_def split: sum.splits)

text \<open>
  C3 asks for a receipt with a null timestamp when the response has code 1 and its
  timestamp is absent or does not parse. The code does the opposite on every such
  response: \<open>date_time\<close> becomes \<open>None\<close>, and \<open>from_api_response\<close> raises (at the latest,
  \<open>AttributeError\<close> from \<open>date_time.strftime\<close>) instead of returning a receipt.
\<close>

theorem from_api_response_raises_without_timestamp:
  assumes "py_eq_int (dict_get response ''code'' (JNum (- 1))) 1"
    and "dict_get response ''data'' (JObj []) = JObj outer"
    and "dict_get outer ''json'' (JObj []) = JObj data"
    and "map_of data ''dateTime'' = None
         \<or> (\<exists>str. map_of data ''dateTime'' = Some (JStr str) \<and> env_strptime env str = None)"
  shows "isl (from_api_response env response)"
proof -
  have "parse_date_time env (dict_get data ''dateTime'' (JStr [])) = Inr None"
    using assms(4) by (auto simp: dict_get_def parse_date_time_absent parse_date_time_unparsed)
  then have "isl (parse_success env (dict_get response ''code'' (JNum (- 1))) response)"
    using assms(2,3) by (rule parse_success_without_date [rotated 2])
  then show ?thesis
    using assms(1) by (simp add: from_api_response_def code_one_hashable code_one_no_message)
qed

theorem from_api_response_raises_without_timestamp_witness:
  "isl (from_api_response (sample_env [])
          [(''code'', JNum 1),
           (''data'', JObj [(''json'', JObj [(''user'', JStr ''Shop''), (''totalSum'', JNum 100000)])])])
   \<and> isl (from_api_response (sample_env [])
          [(''code'', JNum 1),
           (''data'', JObj [(''json'', JObj [(''dateTime'', JStr ''24.09.2020 18:37'')])])])"
  using from_api_response_raises_without_timestamp
    [of "[(''code'', JNum 1),
          (''data'', JObj [(''json'', JObj [(''user'', JStr ''Shop''), (''totalSum'', JNum 100000)])])]"
        "[(''json'', JObj [(''user'', JStr ''Shop''), (''totalSum'', JNum 100000)])]"
        "[(''user'', JStr ''Shop''), (''totalSum'', JNum 100000)]" "sample_env []"]
    from_api_response_raises_without_timestamp
    [of "[(''code'', JNum 1),
          (''data'', JObj [(''json'', JObj [(''dateTime'', JStr ''24.09.2020 18:37'')])])]"
        "[(''json'', JObj [(''dateTime'', JStr ''24.09.2020 18:37'')])]"
        "[(''dateTime'', JStr ''24.09.2020 18:37'')]" "sample_env []"]
  by (simp add: dict_get_def py_eq_int_def as_num_def sample_env_def)

section \<open>Properties of the verifier\<close>

subsection \<open>Auxiliary facts\<close>

lemma length_hexdigest: "length (hexdigest d) = 32"
  by (simp add: hexdigest_def)

lemma hexdigest_nonempty: "hexdigest d \<noteq> []"
  using length_hexdigest [of d] by auto

lemma request_key_true:
  "request_dict_and_key env ob = (d, Some k) \<Longrightarrow> key_true (Some k)"
  by (auto simp: request_dict_and_key_def key_true_def fingerprint_def md5_hexdigest_def
      hexdigest_nonempty split: pyobj.splits option.splits)

lemma py_range_1: "py_range 1 = [0]"
  by (simp add: py_range_def)

lemma py_range_3: "py_range 3 = [0, 1, 2]"
  by (simp add: py_range_def eval_nat_numeral)

lemmas run_defs = verify_receipt_def request_dict_and_key_def alloc_def check_cache_def
  key_true_def add_parameters_def heap_set_def dict_at_def new_verifier_def
  initial_state_def new_cache_def sample_env_def attempt_round_def attempt_try_def do_post_def
  sleep_def close_files_def file_status_def from_api_response_def lookup_error_message_def
  error_messages_def hashable_def py_eq_int_def as_num_def should_retry_def get_delay_def
  Receipt_def dict_get_def Let_def get_def put_def from_qr_file_def code_response_def
  success_response_def parse_success_def bind_exn_def parse_date_time_def truthy_def
  div100_def py_iter_def md5_hexdigest_def hexdigest_nonempty

lemma close_files_keeps:
  "rcache (close_files files st) = rcache st \<and> heap (close_files files st) = heap st
   \<and> posts (close_files files st) = posts st"
proof (cases files)
  case None
  then show ?thesis by (simp add: close_files_def)
next
  case (Some fs)
  have "rcache (fold (\<lambda>kh s'. s'\<lparr>handles := (handles s')[snd kh := False],
                            trace := trace s' @ [EvClose (snd kh)]\<rparr>) fs st) = rcache st
      \<and> heap (fold (\<lambda>kh s'. s'\<lparr>handles := (handles s')[snd kh := False],
                            trace := trace s' @ [EvClose (snd kh)]\<rparr>) fs st) = heap st
      \<and> posts (fold (\<lambda>kh s'. s'\<lparr>handles := (handles s')[snd kh := False],
                            trace := trace s' @ [EvClose (snd kh)]\<rparr>) fs st) = posts st"
    by (induction fs arbitrary: st) simp_all
  then show ?thesis using Some by (simp add: close_files_def)
qed

lemma heap_set_rcache: "rcache (heap_set a k v st) = rcache st"
  by (simp add: heap_set_def)

lemma fold_heap_set_rcache:
  "rcache (fold (\<lambda>kv. heap_set a (g kv) (h kv)) u st) = rcache st"
  by (induction u arbitrary: st) (simp_all add: heap_set_rcache)

lemma add_parameters_rcache: "rcache (add_parameters self a promo_id userdata st) = rcache st"
  by (simp add: add_parameters_def Let_def fold_heap_set_rcache heap_set_rcache split: option.splits)

subsection \<open>Cache hits\<close>

text \<open>
  C7. When the request yields a fingerprint and the cache holds an entry under it,
  \<open>verify_receipt\<close> returns the cached receipt, and it makes no network call: the count of
  calls and the trace of effects are what they were.
\<close>

theorem cache_hit_returns_without_network:
  assumes "request_dict_and_key env (heap st ! request_data) = (d, Some k)"
    and "map_of (cache (rcache st)) k = Some r"
  shows "fst (verify_receipt env self request_data files promo_id userdata st) = Inr r
         \<and> posts (snd (verify_receipt env self request_data files promo_id userdata st)) = posts st
         \<and> trace (snd (verify_receipt env self request_data files promo_id userdata st)) = trace st"
  using assms request_key_true [OF assms(1)]
  by (simp add: verify_receipt_def alloc_def check_cache_def get_def)

theorem cache_hit_returns_without_network_witness:
  "fst (verify_receipt (sample_env []) (new_verifier ''T'' 3) 0 None None None
         \<lparr> rcache = \<lparr> cache = [(md5_hexdigest (sample_env []) ''t=1'', valid_receipt)],
                      max_size = 100, hits = 0, misses = 0 \<rparr>,
           heap = [ODict [(''qrraw'', ''t=1'')]], handles = [], posts = 0, trace = [] \<rparr>)
     = Inr valid_receipt
   \<and> posts (snd (verify_receipt (sample_env []) (new_verifier ''T'' 3) 0 None None None
         \<lparr> rcache = \<lparr> cache = [(md5_hexdigest (sample_env []) ''t=1'', valid_receipt)],
                      max_size = 100, hits = 0, misses = 0 \<rparr>,
           heap = [ODict [(''qrraw'', ''t=1'')]], handles = [], posts = 0, trace = [] \<rparr>)) = 0"
  using cache_hit_returns_without_network
    [of "sample_env []"
        "\<lparr> rcache = \<lparr> cache = [(md5_hexdigest (sample_env []) ''t=1'', valid_receipt)],
                      max_size = 100, hits = 0, misses = 0 \<rparr>,
           heap = [ODict [(''qrraw'', ''t=1'')]], handles = [], posts = 0, trace = [] \<rparr>"
        0 "[(''qrraw'', ''t=1'')]" "md5_hexdigest (sample_env []) ''t=1''" valid_receipt
        "new_verifier ''T'' 3" None None None]
  by (simp add: request_dict_and_key_def)

subsection \<open>Validity of the cached receipts\<close>

lemma list_all_dict_set:
  "list_all P d \<Longrightarrow> P (k, v) \<Longrightarrow> list_all P (dict_set d k v)"
  by (induction d) auto

lemma put_all_valid:
  assumes "all_valid c" and "is_valid r" and "put c k r = Inr c'"
  shows "all_valid c'"
  using assms
  by (auto simp: all_valid_def put_def list_all_dict_set split: if_splits list.splits)

lemma attempt_try_all_valid:
  assumes "all_valid (rcache st)"
  shows "case attempt_try env self cache_key request_dict files attempt st of
           Continue st' \<Rightarrow> all_valid (rcache st') | Return res st' \<Rightarrow> all_valid (rcache st')"
  using assms
  by (auto simp: attempt_try_def do_post_def sleep_def Let_def put_all_valid
      split: outcome.splits json.splits sum.splits)

lemma attempt_round_all_valid:
  assumes "all_valid (rcache st)"
  shows "case attempt_round env self cache_key request_dict files attempt st of
           Continue st' \<Rightarrow> all_valid (rcache st') | Return res st' \<Rightarrow> all_valid (rcache st')"
  using attempt_try_all_valid [OF assms, of env self cache_key request_dict files attempt]
  by (simp add: attempt_round_def close_files_keeps split: step.splits)

lemma retry_loop_all_valid:
  "all_valid (rcache st) \<Longrightarrow>
   all_valid (rcache (snd (retry_loop env self cache_key request_dict files attempts st)))"
proof (induction attempts arbitrary: st)
  case Nil
  then show ?case by simp
next
  case (Cons attempt rest)
  show ?case
    using attempt_round_all_valid [OF Cons.prems, of env self cache_key request_dict files attempt]
    by (auto split: step.splits intro: Cons.IH)
qed

lemma check_cache_all_valid:
  "all_valid (rcache st) \<Longrightarrow> all_valid (rcache (snd (check_cache ck st)))"
  by (simp add: check_cache_def get_def all_valid_def split: option.splits prod.splits)

lemma verify_receipt_all_valid:
  assumes "all_valid (rcache st)"
  shows "all_valid (rcache (snd (verify_receipt env self request_data files promo_id userdata st)))"
proof -
  obtain d ck where rk: "request_dict_and_key env (heap st ! request_data) = (d, ck)"
    by (cases "request_dict_and_key env (heap st ! request_data)") auto
  define st1 where "st1 = st\<lparr>heap := heap st @ [ODict d]\<rparr>"
  obtain cached st2 where cc: "check_cache ck st1 = (cached, st2)"
    by (cases "check_cache ck st1") auto
  have v2: "all_valid (rcache st2)"
    using check_cache_all_valid [of st1 ck] assms cc by (simp add: st1_def)
  show ?thesis
  proof (cases cached)
    case None
    then show ?thesis
      using rk cc v2
      by (simp add: verify_receipt_def alloc_def st1_def [symmetric] retry_loop_all_valid
          add_parameters_rcache)
  next
    case (Some r)
    then show ?thesis
      using rk cc v2 by (simp add: verify_receipt_def alloc_def st1_def [symmetric])
  qed
qed

text \<open>
  C5, as the code has it. \<open>put\<close> stores whatever receipt it is given; the check of
  \<open>is_valid\<close> is in \<open>verify_receipt\<close>, which calls \<open>put\<close> only with a valid receipt. So
  every sequence of \<open>verify_receipt\<close> calls, whatever the network answers, takes a cache
  whose receipts are all valid to a cache whose receipts are all valid.
\<close>

theorem verifier_caches_only_valid_receipts:
  "all_valid (rcache st) \<Longrightarrow> all_valid (rcache (verify_many env self calls st))"
proof (induction calls arbitrary: st)
  case Nil
  then show ?case by simp
next
  case (Cons cl calls)
  obtain request_data files promo_id userdata where cl: "cl = (request_data, files, promo_id, userdata)"
    by (cases cl) auto
  show ?case
    using Cons.prems by (simp add: cl Cons.IH verify_receipt_all_valid)
qed

theorem verifier_caches_only_valid_receipts_witness:
  "all_valid (rcache (initial_state 100 [ODict [(''qrraw'', ''t=1'')]] 0 :: string state))
   \<and> all_valid (rcache (verify_many (sample_env [success_response, code_response 0])
                          (new_verifier ''T'' 3)
                          [(0, None, None, None), (0, None, None, None)]
                          (initial_state 100 [ODict [(''qrraw'', ''t=1'')]] 0)))"
  using verifier_caches_only_valid_receipts
    [of "initial_state 100 [ODict [(''qrraw'', ''t=1'')]] 0"
        "sample_env [success_response, code_response 0]" "new_verifier ''T'' 3"
        "[(0, None, None, None), (0, None, None, None)]"]
  by (simp add: all_valid_def initial_state_def new_cache_def)

text \<open>
  C5 as stated fails: \<open>put\<close> does not refuse a receipt with \<open>is_valid\<close> false, it stores it.
\<close>

theorem put_stores_invalid_receipt:
  "\<not> is_valid invalid_receipt
   \<and> put (new_cache 1000) ''A'' invalid_receipt
       = Inr \<lparr> cache = [(''A'', invalid_receipt)], max_size = 1000, hits = 0, misses = 0 \<rparr>"
  by (simp add: put_def new_cache_def invalid_receipt_def Receipt_def)

subsection \<open>The caller's request object\<close>

lemma heap_set_take: "n \<le> a \<Longrightarrow> take n (heap (heap_set a k v st)) = take n (heap st)"
  by (simp add: heap_set_def)

lemma fold_heap_set_take:
  "n \<le> a \<Longrightarrow> take n (heap (fold (\<lambda>kv. heap_set a (g kv) (h kv)) u st)) = take n (heap st)"
  by (induction u arbitrary: st) (simp_all add: heap_set_take)

lemma add_parameters_take:
  "n \<le> a \<Longrightarrow> take n (heap (add_parameters self a promo_id userdata st)) = take n (heap st)"
  by (simp add: add_parameters_def Let_def fold_heap_set_take heap_set_take split: option.splits)

lemma attempt_try_heap:
  "case attempt_try env self cache_key request_dict files attempt st of
     Continue st' \<Rightarrow> heap st' = heap st | Return res st' \<Rightarrow> heap st' = heap st"
  by (auto simp: attempt_try_def do_post_def sleep_def Let_def
      split: outcome.splits json.splits sum.splits)

lemma attempt_round_heap:
  "case attempt_round env self cache_key request_dict files attempt st of
     Continue st' \<Rightarrow> heap st' = heap st | Return res st' \<Rightarrow> heap st' = heap st"
  using attempt_try_heap [of st env self cache_key request_dict files attempt]
  by (simp add: attempt_round_def close_files_keeps split: step.splits)

lemma retry_loop_heap:
  "heap (snd (retry_loop env self cache_key request_dict files attempts st)) = heap st"
proof (induction attempts arbitrary: st)
  case Nil
  then show ?case by simp
next
  case (Cons attempt rest)
  show ?case
    using attempt_round_heap [of st env self cache_key request_dict files attempt]
    by (auto split: step.splits simp: Cons.IH)
qed

lemma check_cache_heap: "heap (snd (check_cache ck st)) = heap st"
  by (simp add: check_cache_def split: prod.splits)

text \<open>
  C9. \<open>verify_receipt\<close> does not change the caller's request object, nor any other object
  that existed before the call: the store after the call begins with the store before
  it. The token, \<open>promo_id\<close> and the \<open>userdata_\<close> fields are written to the copy, a new
  object behind the old ones.
\<close>

theorem verify_receipt_keeps_callers_objects:
  "take (length (heap st))
     (heap (snd (verify_receipt env self request_data files promo_id userdata st))) = heap st"
proof -
  obtain d ck where rk: "request_dict_and_key env (heap st ! request_data) = (d, ck)"
    by (cases "request_dict_and_key env (heap st ! request_data)") auto
  define st1 where "st1 = st\<lparr>heap := heap st @ [ODict d]\<rparr>"
  obtain cached st2 where cc: "check_cache ck st1 = (cached, st2)"
    by (cases "check_cache ck st1") auto
  have h2: "heap st2 = heap st @ [ODict d]"
    using check_cache_heap [of ck st1] cc by (simp add: st1_def)
  show ?thesis
  proof (cases cached)
    case None
    then show ?thesis
      using rk cc h2
      by (simp add: verify_receipt_def alloc_def st1_def [symmetric] retry_loop_heap add_parameters_take)
  next
    case (Some r)
    then show ?thesis
      using rk cc h2 by (simp add: verify_receipt_def alloc_def st1_def [symmetric])
  qed
qed

subsection \<open>Retries\<close>

lemma should_retry_code:
  assumes "should_retry c"
  shows "hashable c \<and> \<not> py_eq_int c 1 \<and> (\<exists>m. lookup_error_message c = Some m) \<and> c \<noteq> JNum (- 1)"
  using assms
  by (cases c) (auto simp: should_retry_def py_eq_int_def as_num_def hashable_def
      lookup_error_message_def error_messages_def split: if_splits)

lemma close_files_posts: "posts (close_files files st) = posts st"
  by (simp add: close_files_keeps)

lemma attempt_round_retryable:
  assumes "env_post env (posts st) = Decoded (JObj r)"
    and "should_retry (dict_get r ''code'' (JNum (- 1)))"
  shows "if attempt < max_retries (retry_handler self) - 1
         then \<exists>st'. attempt_round env self ck rd files attempt st = Continue st'
                \<and> posts st' = Suc (posts st)
         else \<exists>st'. attempt_round env self ck rd files attempt st
                = Return (from_api_response env r) st'"
  using assms should_retry_code [OF assms(2)]
  by (auto simp: attempt_round_def attempt_try_def do_post_def sleep_def Let_def close_files_posts)

lemma retry_loop_retryable:
  assumes "int n = max_retries (retry_handler self)"
    and "\<And>k. k < n \<Longrightarrow> env_post env (p0 + k) = Decoded (JObj (res k))
           \<and> should_retry (dict_get (res k) ''code'' (JNum (- 1)))"
  shows "i < n \<Longrightarrow> posts st = p0 + i \<Longrightarrow>
         fst (retry_loop env self ck rd files (map int [i..<n]) st) = from_api_response env (res (n - 1))"
proof (induction "n - i" arbitrary: i st)
  case 0
  then show ?case by simp
next
  case (Suc m)
  have post: "env_post env (posts st) = Decoded (JObj (res i))"
    and retry: "should_retry (dict_get (res i) ''code'' (JNum (- 1)))"
    using assms(2) [of i] Suc.prems by simp_all
  have unfold: "map int [i..<n] = int i # map int [Suc i..<n]"
    using Suc.prems(1) by (simp add: upt_conv_Cons)
  show ?case
  proof (cases "Suc i < n")
    case True
    then have "int i < max_retries (retry_handler self) - 1" using assms(1) by linarith
    then obtain st' where st': "attempt_round env self ck rd files (int i) st = Continue st'"
      "posts st' = Suc (posts st)"
      using attempt_round_retryable [OF post retry, of "int i" self ck rd files] by auto
    have "fst (retry_loop env self ck rd files (map int [Suc i..<n]) st') = from_api_response env (res (n - 1))"
      by (rule Suc.hyps(1)) (use Suc.hyps(2) Suc.prems True st' in simp_all)
    then show ?thesis by (simp add: unfold st')
  next
    case False
    then have last: "i = n - 1" and "\<not> int i < max_retries (retry_handler self) - 1"
      using Suc.prems(1) assms(1) by linarith+
    then obtain st' where "attempt_round env self ck rd files (int i) st
        = Return (from_api_response env (res i)) st'"
      using attempt_round_retryable [OF post retry, of "int i" self ck rd files] by auto
    then have "fst (retry_loop env self ck rd files (int i # map int [Suc i..<n]) st)
        = from_api_response env (res i)"
      by simp
    moreover have "res i = res (n - 1)" using last by simp
    ultimately show ?thesis unfolding unfold by simp
  qed
qed

lemma check_cache_miss:
  assumes "\<And>k. ck = Some k \<Longrightarrow> map_of (cache (rcache st)) k = None"
  shows "fst (check_cache ck st) = None \<and> posts (snd (check_cache ck st)) = posts st"
  using assms by (cases ck) (auto simp: check_cache_def get_def key_true_def)

lemma heap_set_posts: "posts (heap_set a k v st) = posts st"
  by (simp add: heap_set_def)

lemma fold_heap_set_posts:
  "posts (fold (\<lambda>kv. heap_set a (g kv) (h kv)) u st) = posts st"
  by (induction u arbitrary: st) (simp_all add: heap_set_posts)

lemma add_parameters_posts: "posts (add_parameters self a promo_id userdata st) = posts st"
  by (simp add: add_parameters_def Let_def fold_heap_set_posts heap_set_posts split: option.splits)

lemma retryable_response_parsed:
  assumes "should_retry (dict_get r ''code'' (JNum (- 1)))"
  shows "\<exists>m. lookup_error_message (dict_get r ''code'' (JNum (- 1))) = Some m
           \<and> from_api_response env r
               = Inr (Receipt (dict_get r ''code'' (JNum (- 1))) False (Some (env_now env)) (Some (JStr m)))"
  using should_retry_code [OF assms] by (auto simp: from_api_response_def)

lemma Receipt_code: "code (Receipt c v dt msg) = c"
  by (simp add: Receipt_def)

text \<open>
  C2 asks for a receipt of retry exhaustion when every attempt is answered with a
  retryable code. The code returns the receipt parsed from the last response instead:
  in the last round \<open>attempt < max_retries - 1\<close> fails and control falls through to the
  \<open>return\<close> for the responses that are not retried. So for every number of attempts from
  1 on, when no cached receipt is found and every attempt is answered with a retryable
  code, the call returns the invalid receipt with the code and the message of the last
  response, and not the receipt with \<open>Max retries exceeded\<close>.
\<close>

theorem exhausted_retries_return_last_response:
  assumes "1 \<le> max_retries (retry_handler self)"
    and "\<And>k. k < nat (max_retries (retry_handler self)) \<Longrightarrow>
           env_post env (posts st + k) = Decoded (JObj (res k))
           \<and> should_retry (dict_get (res k) ''code'' (JNum (- 1)))"
    and "\<And>k. snd (request_dict_and_key env (heap st ! request_data)) = Some k \<Longrightarrow>
           map_of (cache (rcache st)) k = None"
  shows "fst (verify_receipt env self request_data files promo_id userdata st)
           = from_api_response env (res (nat (max_retries (retry_handler self)) - 1))
         \<and> (\<exists>m. lookup_error_message
                   (dict_get (res (nat (max_retries (retry_handler self)) - 1)) ''code'' (JNum (- 1)))
                   = Some m
                \<and> fst (verify_receipt env self request_data files promo_id userdata st)
                    = Inr (Receipt
                        (dict_get (res (nat (max_retries (retry_handler self)) - 1)) ''code'' (JNum (- 1)))
                        False (Some (env_now env)) (Some (JStr m))))
         \<and> fst (verify_receipt env self request_data files promo_id userdata st)
             \<noteq> Inr (Receipt (JNum (- 1)) False (Some (env_now env))
                      (Some (JStr ''Max retries exceeded'')))"
proof -
  obtain d ck where rk: "request_dict_and_key env (heap st ! request_data) = (d, ck)"
    by (cases "request_dict_and_key env (heap st ! request_data)") auto
  define st1 where "st1 = st\<lparr>heap := heap st @ [ODict d]\<rparr>"
  have miss: "fst (check_cache ck st1) = None \<and> posts (snd (check_cache ck st1)) = posts st1"
    by (rule check_cache_miss) (use assms(3) rk in \<open>simp add: st1_def\<close>)
  obtain st2 where cc: "check_cache ck st1 = (None, st2)" "posts st2 = posts st"
    using miss by (cases "check_cache ck st1") (auto simp: st1_def)
  define n where "n = nat (max_retries (retry_handler self))"
  define c where "c = dict_get (res (n - 1)) ''code'' (JNum (- 1))"
  have "fst (retry_loop env self ck (length (heap st)) files (map int [0..<n])
               (add_parameters self (length (heap st)) promo_id userdata st2))
          = from_api_response env (res (n - 1))"
    by (rule retry_loop_retryable [where ?p0.0 = "posts st"])
      (use assms(1,2) cc in \<open>simp_all add: n_def add_parameters_posts\<close>)
  then have res: "fst (verify_receipt env self request_data files promo_id userdata st)
      = from_api_response env (res (n - 1))"
    using rk cc by (simp add: verify_receipt_def alloc_def st1_def [symmetric] py_range_def n_def)
  have retry: "should_retry c"
    using assms(1) assms(2) [of "n - 1"] by (simp add: n_def c_def)
  obtain m where m: "lookup_error_message c = Some m"
    "from_api_response env (res (n - 1)) = Inr (Receipt c False (Some (env_now env)) (Some (JStr m)))"
    using retryable_response_parsed [OF retry [unfolded c_def], of env] by (auto simp: c_def)
  have "c \<noteq> JNum (- 1)" using should_retry_code [OF retry] by simp
  then have neq: "Receipt c False (Some (env_now env)) (Some (JStr m))
      \<noteq> Receipt (JNum (- 1)) False (Some (env_now env)) (Some (JStr ''Max retries exceeded''))"
    by (metis Receipt_code)
  show ?thesis using res m neq unfolding c_def n_def by auto
qed

theorem exhausted_retries_return_last_response_witness:
  "fst (verify_receipt (sample_env [code_response 3, code_response 3, code_response 3])
          (new_verifier ''T'' 3) 0 None None None (initial_state 100 [ODict [(''qrurl'', ''u'')]] 0))
     = Inr (Receipt (JNum 3) False (Some ''2025-01-01T00:00:00'') (Some (JStr ''Request limit exceeded'')))"
proof -
  have h1: "1 \<le> max_retries (retry_handler (new_verifier ''T'' 3))"
    by (simp add: new_verifier_def)
  have h2: "env_post (sample_env [code_response 3, code_response 3, code_response 3])
               (posts (initial_state 100 [ODict [(''qrurl'', ''u'')]] 0 :: string state) + k)
             = Decoded (JObj ((\<lambda>k. [(''code'', JNum 3)]) k))
            \<and> should_retry (dict_get ((\<lambda>k. [(''code'', JNum 3)]) k) ''code'' (JNum (- 1)))"
    if "k < nat (max_retries (retry_handler (new_verifier ''T'' 3)))" for k
    using that
    by (auto simp: new_verifier_def sample_env_def initial_state_def code_response_def
        should_retry_def py_eq_int_def as_num_def dict_get_def nth_Cons' less_Suc_eq eval_nat_numeral)
  have h3: "map_of (cache (rcache (initial_state 100 [ODict [(''qrurl'', ''u'')]] 0 :: string state))) k = None"
    if "snd (request_dict_and_key (sample_env [code_response 3, code_response 3, code_response 3])
          (heap (initial_state 100 [ODict [(''qrurl'', ''u'')]] 0 :: string state) ! 0)) = Some k" for k
    by (simp add: initial_state_def new_cache_def)
  have c: "dict_get [(''code'', JNum 3)] ''code'' (JNum (- 1)) = JNum 3"
    by (simp add: dict_get_def)
  have msg: "lookup_error_message (JNum 3) = Some ''Request limit exceeded''"
    by (simp add: lookup_error_message_def error_messages_def py_eq_int_def as_num_def)
  have now: "env_now (sample_env [code_response 3, code_response 3, code_response 3])
      = ''2025-01-01T00:00:00''"
    by (simp add: sample_env_def)
  note run = exhausted_retries_return_last_response
      [where self = "new_verifier ''T'' 3"
         and env = "sample_env [code_response 3, code_response 3, code_response 3]"
         and st = "initial_state 100 [ODict [(''qrurl'', ''u'')]] 0"
         and res = "\<lambda>k. [(''code'', JNum 3)]" and request_data = 0
         and files = None and promo_id = None and userdata = None, OF h1 h2 h3]
  from run [unfolded c msg now] show ?thesis by auto
qed

text \<open>The run of the witness in full, with the sleeps of 1 and 2 seconds between the
  three network calls.\<close>

lemma three_rate_limits_run:
  "verify_receipt (sample_env [code_response 3, code_response 3, code_response 3])
     (new_verifier ''T'' 3) 0 None None None (initial_state 100 [ODict [(''qrurl'', ''u'')]] 0)
   = (Inr (Receipt (JNum 3) False (Some ''2025-01-01T00:00:00'') (Some (JStr ''Request limit exceeded''))),
      \<lparr> rcache = new_cache 100,
        heap = [ODict [(''qrurl'', ''u'')], ODict [(''qrurl'', ''u''), (''token'', ''T'')]],
        handles = [], posts = 3,
        trace = [EvPost [(''qrurl'', ''u''), (''token'', ''T'')] [], EvSleep 1,
                 EvPost [(''qrurl'', ''u''), (''token'', ''T'')] [], EvSleep 2,
                 EvPost [(''qrurl'', ''u''), (''token'', ''T'')] []] \<rparr>)"
  by (simp add: run_defs py_range_3)

subsection \<open>The attached file\<close>

lemma fold_close_handles:
  "h < length (handles st) \<Longrightarrow> h \<in> snd ` set fs \<or> \<not> handles st ! h \<Longrightarrow>
   \<not> handles (fold (\<lambda>kh s'. s'\<lparr>handles := (handles s')[snd kh := False],
                            trace := trace s' @ [EvClose (snd kh)]\<rparr>) fs st) ! h
   \<and> length (handles (fold (\<lambda>kh s'. s'\<lparr>handles := (handles s')[snd kh := False],
                            trace := trace s' @ [EvClose (snd kh)]\<rparr>) fs st)) = length (handles st)"
proof (induction fs arbitrary: st)
  case Nil
  then show ?case by simp
next
  case (Cons kh fs)
  define st1 where "st1 = st\<lparr>handles := (handles st)[snd kh := False],
                            trace := trace st @ [EvClose (snd kh)]\<rparr>"
  have len: "h < length (handles st1)" using Cons.prems(1) by (simp add: st1_def)
  have "h \<in> snd ` set fs \<or> \<not> handles st1 ! h"
    using Cons.prems by (cases "h = snd kh") (auto simp: st1_def)
  from Cons.IH [OF len this] show ?case by (simp add: st1_def)
qed

lemma attempt_try_handles:
  "case attempt_try env self cache_key request_dict files attempt st of
     Continue st' \<Rightarrow> handles st' = handles st | Return res st' \<Rightarrow> handles st' = handles st"
  by (auto simp: attempt_try_def do_post_def sleep_def Let_def
      split: outcome.splits json.splits sum.splits)

text \<open>
  C8 asks that the handle of an attached QR file is released once, on the way out of
  the call, and never while a retry still needs it. In the code the \<open>finally\<close> clause is
  inside the loop, so it runs after every attempt: whenever a round of the loop ends in
  a retry, every attached handle is closed in the state in which the next round makes
  its network call, and that call is made with the closed handle.
\<close>

theorem retry_closes_attached_handles:
  assumes "attempt_round env self cache_key request_dict (Some fs) attempt st = Continue st'"
    and "(k, h) \<in> set fs" and "h < length (handles st)"
  shows "\<not> handles st' ! h
         \<and> file_status st' (Some [(k, h)]) = [(k, h, False)]"
proof -
  obtain st0 where st0: "attempt_try env self cache_key request_dict (Some fs) attempt st = Continue st0"
    and st': "st' = close_files (Some fs) st0"
    using assms(1) by (auto simp: attempt_round_def split: step.splits)
  have "handles st0 = handles st"
    using attempt_try_handles [of st env self cache_key request_dict "Some fs" attempt] st0 by simp
  then have "h < length (handles st0)" using assms(3) by simp
  moreover have "h \<in> snd ` set fs \<or> \<not> handles st0 ! h" using assms(2) by force
  ultimately have "\<not> handles st' ! h"
    using fold_close_handles [of h st0 fs] by (simp add: st' close_files_def)
  then show ?thesis by (simp add: file_status_def)
qed

theorem retry_closes_attached_handles_witness:
  "attempt_round (sample_env [code_response 3, code_response 0]) (new_verifier ''T'' 3) None 0
      (Some [(''qrfile'', 0)]) 0
      \<lparr> rcache = new_cache 100, heap = [ODict [(''token'', ''T'')]], handles = [True],
        posts = 0, trace = [] \<rparr>
    = Continue
      \<lparr> rcache = new_cache 100, heap = [ODict [(''token'', ''T'')]], handles = [False],
        posts = 1,
        trace = [EvPost [(''token'', ''T'')] [(''qrfile'', 0, True)], EvSleep 1, EvClose 0] \<rparr>
   \<and> file_status
        \<lparr> rcache = new_cache 100 :: string receipt_cache, heap = [ODict [(''token'', ''T'')]],
          handles = [False], posts = 1,
          trace = [EvPost [(''token'', ''T'')] [(''qrfile'', 0, True)], EvSleep 1, EvClose 0] \<rparr>
        (Some [(''qrfile'', 0)]) = [(''qrfile'', 0, False)]"
proof -
  have r: "attempt_round (sample_env [code_response 3, code_response 0]) (new_verifier ''T'' 3) None 0
      (Some [(''qrfile'', 0)]) 0
      \<lparr> rcache = new_cache 100, heap = [ODict [(''token'', ''T'')]], handles = [True],
        posts = 0, trace = [] \<rparr>
    = Continue
      \<lparr> rcache = new_cache 100, heap = [ODict [(''token'', ''T'')]], handles = [False],
        posts = 1,
        trace = [EvPost [(''token'', ''T'')] [(''qrfile'', 0, True)], EvSleep 1, EvClose 0] \<rparr>"
    by (simp add: run_defs)
  show ?thesis
    using r retry_closes_attached_handles [OF r, of "''qrfile''" 0] by simp
qed

text \<open>A whole call with a file from \<open>from_qr_file\<close>, answered with code 3 and then code 0:
  the handle is closed after the first attempt, the second network call has the closed
  handle, and the handle is closed a second time.\<close>

lemma qr_file_run:
  "(case from_qr_file (sample_env [code_response 3, code_response 0]) ''qr.png''
           (initial_state 100 [] 0) of
      (Inr (data, files), st) \<Rightarrow>
        trace (snd (verify_receipt (sample_env [code_response 3, code_response 0])
                      (new_verifier ''T'' 3) data (Some files) None None st))
    | (Inl e, st) \<Rightarrow> [])
   = [EvPost [(''token'', ''T'')] [(''qrfile'', 0, True)], EvSleep 1, EvClose 0,
      EvPost [(''token'', ''T'')] [(''qrfile'', 0, False)], EvClose 0]"
  by (simp add: run_defs py_range_3)

subsection \<open>Fingerprints\<close>

text \<open>
  C1, as the code has it. Two \<open>RequestParams\<close> with the same \<open>fn\<close>, \<open>fd\<close>, \<open>fp\<close> and \<open>t\<close>
  have the same cache key, the digest of these four fields joined by underscores,
  whatever their other fields are. The key of a dict request is the digest of its
  \<open>qrraw\<close> payload as it is written, and a dict without \<open>qrraw\<close> has no key.
\<close>

theorem cache_key_of_request:
  "(rp_fn p = rp_fn q \<and> rp_fd p = rp_fd q \<and> rp_fp p = rp_fp q \<and> rp_t p = rp_t q \<longrightarrow>
      snd (request_dict_and_key env (OParams p)) = snd (request_dict_and_key env (OParams q)))
   \<and> snd (request_dict_and_key env (OParams p))
       = Some (md5_hexdigest env (rp_fn p @ ''_'' @ rp_fd p @ ''_'' @ rp_fp p @ ''_'' @ rp_t p))
   \<and> snd (request_dict_and_key env (ODict d)) = map_option (md5_hexdigest env) (map_of d ''qrraw'')"
  by (simp add: request_dict_and_key_def fingerprint_def split: option.splits)

theorem cache_key_of_request_witness:
  "snd (request_dict_and_key (sample_env []) (OParams sample_params))
     = snd (request_dict_and_key (sample_env [])
              (OParams (sample_params\<lparr>rp_s := ''350.00'', rp_qr := ''1''\<rparr>)))"
  using cache_key_of_request
    [of sample_params "sample_params\<lparr>rp_s := ''350.00'', rp_qr := ''1''\<rparr>" "sample_env []"]
  by simp

text \<open>
  C1 as stated fails: the manual fields given as a \<open>RequestParams\<close> have a fingerprint,
  and the same fields given as a dict, which is what \<open>from_manual_params\<close> passes on,
  have none.
\<close>

theorem manual_dict_has_no_fingerprint:
  "snd (request_dict_and_key (sample_env []) (OParams sample_params))
     \<noteq> snd (request_dict_and_key (sample_env []) (ODict (to_dict sample_params)))"
  by (simp add: request_dict_and_key_def to_dict_def)

section \<open>Worked examples\<close>

text \<open>A successful verification: the amounts are divided by 100, the receipt is stored
  under the key of the payload, and one network call is made.\<close>

lemma successful_run:
  "(case verify_receipt (sample_env [success_response]) (new_verifier ''T'' 3) 0 None (Some 7)
            (Some [(''shop'', ''x'')]) (initial_state 100 [ODict [(''qrraw'', ''t=1'')]] 0) of
      (Inr r, st) \<Rightarrow>
        is_valid r \<and> total_sum r = 1000 \<and> date r = ''2020-09-24'' \<and> time r = ''18:37:00''
        \<and> date_time r = None
        \<and> cache (rcache st) = [(md5_hexdigest (sample_env [success_response]) ''t=1'', r)]
        \<and> heap st = [ODict [(''qrraw'', ''t=1'')],
                      ODict [(''qrraw'', ''t=1''), (''token'', ''T''), (''promo_id'', ''7''),
                             (''userdata_shop'', ''x'')]]
        \<and> posts st = 1
    | (Inl e, st) \<Rightarrow> False)"
  by (simp add: run_defs py_range_3 str_int_def str_nat.simps)

text \<open>The same request verified twice: the second call is answered from the cache, and
  the network is called once.\<close>

lemma second_call_is_a_hit:
  "posts (verify_many (sample_env [success_response, code_response 0]) (new_verifier ''T'' 3)
            [(0, None, None, None), (0, None, None, None)]
            (initial_state 100 [ODict [(''qrraw'', ''t=1'')]] 0)) = 1
   \<and> hits (rcache (verify_many (sample_env [success_response, code_response 0]) (new_verifier ''T'' 3)
            [(0, None, None, None), (0, None, None, None)]
            (initial_state 100 [ODict [(''qrraw'', ''t=1'')]] 0))) = 1"
  by (simp add: run_defs py_range_3)

end
